theory Spec2Isabelle
  imports Main "HOL-Library.Multiset"
begin

section \<open>JavaScript values used by the order router\<close>

text \<open>
  The fields of a JSON request body, of a query string and of a stored row that the
  handlers read are strings that may be absent: \<open>None\<close> stands for JavaScript's
  \<open>undefined\<close>/\<open>null\<close>. Points in time (\<open>Date\<close> objects) are integers, the
  milliseconds since the epoch that \<open>getTime()\<close> returns.
\<close>

type_synonym jsstr = "string option"

text \<open>JavaScript truthiness of such a value: \<open>!v\<close> holds for an absent value and for \<open>''\<close>.\<close>

fun truthy :: "jsstr \<Rightarrow> bool" where
  "truthy None = False"
| "truthy (Some s) = (s \<noteq> [])"

text \<open>\<open>a || b\<close> on such values.\<close>

definition js_or :: "jsstr \<Rightarrow> jsstr \<Rightarrow> jsstr" where
  "js_or a b = (if truthy a then a else b)"

text \<open>\<open>Number.prototype.toString()\<close> on a non-negative integer: its decimal digits.\<close>

definition digit_char :: "nat \<Rightarrow> char" where
  "digit_char d = ''0123456789'' ! d"

fun show_nat :: "nat \<Rightarrow> string" where
  "show_nat n = (if n < 10 then [digit_char n] else show_nat (n div 10) @ [digit_char (n mod 10)])"

declare show_nat.simps [simp del]

text \<open>\<open>Array.prototype.findIndex\<close>: the first index whose element satisfies the
  predicate, \<open>-1\<close> when there is none.\<close>

fun findIndex_from :: "('a \<Rightarrow> bool) \<Rightarrow> 'a list \<Rightarrow> int \<Rightarrow> int" where
  "findIndex_from p [] i = - 1"
| "findIndex_from p (x # xs) i = (if p x then i else findIndex_from p xs (i + 1))"

definition findIndex :: "('a \<Rightarrow> bool) \<Rightarrow> 'a list \<Rightarrow> int" where
  "findIndex p xs = findIndex_from p xs 0"

text \<open>Reading \<open>xs[i]\<close>: \<open>undefined\<close> (here \<open>None\<close>) outside the array.\<close>

definition js_index :: "'a list \<Rightarrow> int \<Rightarrow> 'a option" where
  "js_index xs i = (if 0 \<le> i \<and> i < int (length xs) then Some (xs ! nat i) else None)"

datatype js_error = TypeError

section \<open>Data model\<close>

record order =
  order_id :: string
  orderNumber :: jsstr
  customerName :: jsstr
  customerPhone :: jsstr
  customerId :: jsstr
  deliveryAddress :: jsstr
  items :: jsstr
  subtotal :: jsstr
  deliveryFee :: jsstr
  total :: jsstr
  totalAmount :: jsstr
  status :: jsstr
  driverId :: jsstr
  restaurantId :: jsstr
  createdAt :: int
  updatedAt :: int

record driver =
  driver_id :: string
  driver_name :: jsstr
  driver_phone :: jsstr
  isAvailable :: bool
  currentLocation :: jsstr

section \<open>Tracking synthesis (GET /:id/track)\<close>

text \<open>The seven messages of the status table, named by their meaning.\<close>

datatype track_message =
  OrderReceived | ConfirmedByRestaurant | BeingPrepared | ReadyForPickup
  | PickedUpFromRestaurant | OnTheWayToYou | DeliveredSuccessfully

record status_step =
  step_status :: string
  step_message :: track_message
  step_offset :: int

definition statusSteps :: "status_step list" where
  "statusSteps =
    [\<lparr>step_status = ''pending'', step_message = OrderReceived, step_offset = 0\<rparr>,
     \<lparr>step_status = ''confirmed'', step_message = ConfirmedByRestaurant, step_offset = 5\<rparr>,
     \<lparr>step_status = ''preparing'', step_message = BeingPrepared, step_offset = 10\<rparr>,
     \<lparr>step_status = ''ready'', step_message = ReadyForPickup, step_offset = 20\<rparr>,
     \<lparr>step_status = ''picked_up'', step_message = PickedUpFromRestaurant, step_offset = 25\<rparr>,
     \<lparr>step_status = ''on_way'', step_message = OnTheWayToYou, step_offset = 30\<rparr>,
     \<lparr>step_status = ''delivered'', step_message = DeliveredSuccessfully, step_offset = 45\<rparr>]"

record tracking_entry =
  te_id :: string
  te_status :: string
  te_message :: track_message
  te_timestamp :: int
  createdByType :: string

text \<open>The object pushed in one iteration of the loop, for index \<open>i\<close> and table entry \<open>step\<close>.\<close>

definition tracking_entry_of :: "int \<Rightarrow> int \<Rightarrow> status_step \<Rightarrow> tracking_entry" where
  "tracking_entry_of baseTime i step =
    \<lparr>te_id = show_nat (nat (i + 1)),
     te_status = step_status step,
     te_message = step_message step,
     te_timestamp = baseTime + step_offset step * 60000,
     createdByType = (if i = 0 then ''system'' else if i \<le> 2 then ''restaurant'' else ''driver'')\<rparr>"

text \<open>
  \<^verbatim>\<open>for (let i = 0; i <= currentStatusIndex; i++) { const step = statusSteps[i]; tracking.push({...}) }\<close>
  Reading a field of \<open>statusSteps[i]\<close> outside the table would throw a \<open>TypeError\<close>.
\<close>

function track_loop :: "int \<Rightarrow> int \<Rightarrow> int \<Rightarrow> tracking_entry list \<Rightarrow> js_error + tracking_entry list" where
  "track_loop baseTime currentStatusIndex i tracking =
    (if i \<le> currentStatusIndex then
       (case js_index statusSteps i of
          None \<Rightarrow> Inl TypeError
        | Some step \<Rightarrow>
            track_loop baseTime currentStatusIndex (i + 1)
              (tracking @ [tracking_entry_of baseTime i step]))
     else Inr tracking)"
  by pat_completeness auto
termination
  by (relation "measure (\<lambda>(b, c, i, t). nat (c + 1 - i))") auto

declare track_loop.simps [simp del]

definition synthesize_tracking :: "order \<Rightarrow> js_error + tracking_entry list" where
  "synthesize_tracking ord =
    (let baseTime = createdAt ord;
         currentStatusIndex = findIndex (\<lambda>step. Some (step_status step) = status ord) statusSteps
     in track_loop baseTime currentStatusIndex 0 [])"

section \<open>The order store\<close>

text \<open>
  The fields of an order that a request body can carry. The body of POST / and of
  PUT /:id is such a record; a field that the body lacks is \<open>None\<close>.
\<close>

record order_fields =
  f_orderNumber :: jsstr
  f_customerName :: jsstr
  f_customerPhone :: jsstr
  f_customerId :: jsstr
  f_deliveryAddress :: jsstr
  f_items :: jsstr
  f_subtotal :: jsstr
  f_deliveryFee :: jsstr
  f_total :: jsstr
  f_totalAmount :: jsstr
  f_status :: jsstr
  f_driverId :: jsstr
  f_restaurantId :: jsstr

definition no_fields :: order_fields where
  "no_fields =
    \<lparr>f_orderNumber = None, f_customerName = None, f_customerPhone = None, f_customerId = None,
     f_deliveryAddress = None, f_items = None, f_subtotal = None, f_deliveryFee = None,
     f_total = None, f_totalAmount = None, f_status = None, f_driverId = None,
     f_restaurantId = None\<rparr>"

text \<open>The text of a notification, named by its meaning; the parts that the handlers
  splice into a template are kept as arguments.\<close>

datatype status_message =
  YourOrderConfirmed | YourOrderBeingPrepared | YourOrderReady | YourOrderPickedUp
  | YourOrderOnTheWay | YourOrderDelivered | YourOrderCancelled

datatype notif_message =
    NewOrderFrom jsstr string
  | StatusText status_message
  | StatusUpdatedFallback
  | InheritedProperty string
  | DriverWillDeliver jsstr

datatype notif_title = NewOrderTitle | OrderUpdateTitle | DriverAssignedTitle

record notification =
  n_type :: string
  n_title :: notif_title
  n_message :: notif_message
  recipientType :: string
  recipientId :: jsstr
  n_orderId :: string
  isRead :: bool

record store =
  orders :: "order list"
  drivers :: "driver list"
  notifications :: "notification list"

text \<open>
  Modelled from the spec: the module \<open>../storage\<close> (\<open>storage.getOrders\<close>,
  \<open>getOrder\<close>, \<open>createOrder\<close>, \<open>updateOrder\<close>, \<open>getDriver\<close>, \<open>updateDriver\<close>,
  \<open>createNotification\<close>) is not among the sources. The spec describes it as the only
  stateful component: persisted records of orders and drivers keyed by an opaque
  identifier, an update that is partial and yields the updated record or nothing when the
  identifier is unknown, and notification records created as a side effect. The store is
  the list of rows of each kind; every operation takes the store and returns the new one.
  Faults of the persistence layer are outside this model: the operations do not throw,
  except \<open>createNotification\<close>, whose failure each handler catches on its own.
\<close>

definition getOrders :: "store \<Rightarrow> order list" where
  "getOrders s = orders s"

definition getOrder :: "store \<Rightarrow> string \<Rightarrow> order option" where
  "getOrder s oid = find (\<lambda>ord. order_id ord = oid) (orders s)"

definition getDriver :: "store \<Rightarrow> string \<Rightarrow> driver option" where
  "getDriver s did = find (\<lambda>d. driver_id d = did) (drivers s)"

definition set_field :: "jsstr \<Rightarrow> jsstr \<Rightarrow> jsstr" where
  "set_field new old = (case new of None \<Rightarrow> old | Some v \<Rightarrow> Some v)"

definition apply_fields :: "order_fields \<Rightarrow> int \<Rightarrow> order \<Rightarrow> order" where
  "apply_fields p upd ord =
    ord\<lparr>orderNumber := set_field (f_orderNumber p) (orderNumber ord),
        customerName := set_field (f_customerName p) (customerName ord),
        customerPhone := set_field (f_customerPhone p) (customerPhone ord),
        customerId := set_field (f_customerId p) (customerId ord),
        deliveryAddress := set_field (f_deliveryAddress p) (deliveryAddress ord),
        items := set_field (f_items p) (items ord),
        subtotal := set_field (f_subtotal p) (subtotal ord),
        deliveryFee := set_field (f_deliveryFee p) (deliveryFee ord),
        total := set_field (f_total p) (total ord),
        totalAmount := set_field (f_totalAmount p) (totalAmount ord),
        status := set_field (f_status p) (status ord),
        driverId := set_field (f_driverId p) (driverId ord),
        restaurantId := set_field (f_restaurantId p) (restaurantId ord),
        updatedAt := upd\<rparr>"

text \<open>\<open>storage.updateOrder(id, {...fields, updatedAt})\<close>: the rows with this identifier take
  the fields given; the result is the updated row, or nothing for an unknown identifier.\<close>

definition updateOrder :: "store \<Rightarrow> string \<Rightarrow> order_fields \<Rightarrow> int \<Rightarrow> store \<times> order option" where
  "updateOrder s oid p upd =
    (case getOrder s oid of
       None \<Rightarrow> (s, None)
     | Some ord \<Rightarrow>
         (s\<lparr>orders := map (\<lambda>r. if order_id r = oid then apply_fields p upd r else r) (orders s)\<rparr>,
          Some (apply_fields p upd ord)))"

text \<open>\<open>storage.updateDriver(id, { isAvailable })\<close>.\<close>

definition updateDriver :: "store \<Rightarrow> string \<Rightarrow> bool \<Rightarrow> store" where
  "updateDriver s did avail =
    s\<lparr>drivers := map (\<lambda>d. if driver_id d = did then d\<lparr>isAvailable := avail\<rparr> else d) (drivers s)\<rparr>"

text \<open>\<open>storage.createOrder(data)\<close>: a new row with the identifier the store generates
  (\<open>new_id\<close>), holding the data as given.\<close>

definition order_of_fields :: "string \<Rightarrow> order_fields \<Rightarrow> int \<Rightarrow> int \<Rightarrow> order" where
  "order_of_fields new_id p created upd =
    \<lparr>order_id = new_id, orderNumber = f_orderNumber p, customerName = f_customerName p,
     customerPhone = f_customerPhone p, customerId = f_customerId p,
     deliveryAddress = f_deliveryAddress p, items = f_items p, subtotal = f_subtotal p,
     deliveryFee = f_deliveryFee p, total = f_total p, totalAmount = f_totalAmount p,
     status = f_status p, driverId = f_driverId p, restaurantId = f_restaurantId p,
     createdAt = created, updatedAt = upd\<rparr>"

definition createOrder :: "store \<Rightarrow> string \<Rightarrow> order_fields \<Rightarrow> int \<Rightarrow> int \<Rightarrow> store \<times> order" where
  "createOrder s new_id p created upd =
    (let row = order_of_fields new_id p created upd
     in (s\<lparr>orders := orders s @ [row]\<rparr>, row))"

text \<open>\<open>storage.createNotification(n)\<close> may throw; \<open>ok\<close> says whether this call succeeds,
  and \<open>None\<close> is the exception.\<close>

definition createNotification :: "store \<Rightarrow> bool \<Rightarrow> notification \<Rightarrow> store option" where
  "createNotification s ok n =
    (if ok then Some (s\<lparr>notifications := notifications s @ [n]\<rparr>) else None)"

text \<open>\<^verbatim>\<open>try { await storage.createNotification(n) } catch (e) { console.error(...) }\<close>\<close>

definition try_notify :: "store \<Rightarrow> bool \<Rightarrow> notification \<Rightarrow> store" where
  "try_notify s ok n = (case createNotification s ok n of None \<Rightarrow> s | Some s' \<Rightarrow> s')"

section \<open>Responses\<close>

text \<open>The \<open>error\<close> texts of the router that this model can produce, named by their
  meaning. \<open>CreateOrderFailed\<close> is the text of the catch-all of POST / (status 500);
  \<open>OrderUpdateFailed\<close> is the 404 of the assignment whose update finds no order.\<close>

datatype error_body =
    RequiredDataMissing
  | CreateOrderFailed
  | OrderNotFound
  | DriverIdRequired
  | AlreadyAssignedToAnotherDriver
  | DriverNotFound
  | OrderUpdateFailed

datatype response =
    Error nat error_body
  | Created order jsstr
  | OkOrder order
  | OkOrders "order list"
  | OkAssigned order

fun http_status :: "response \<Rightarrow> nat" where
  "http_status (Error code e) = code"
| "http_status (Created ord n) = 201"
| "http_status (OkOrder ord) = 200"
| "http_status (OkOrders os) = 200"
| "http_status (OkAssigned ord) = 200"

section \<open>Driver assignment (PUT /:id/assign-driver)\<close>

definition assigned_notification :: "order \<Rightarrow> driver \<Rightarrow> string \<Rightarrow> notification" where
  "assigned_notification ord d oid =
    \<lparr>n_type = ''order_assigned'', n_title = DriverAssignedTitle,
     n_message = DriverWillDeliver (driver_name d), recipientType = ''customer'',
     recipientId = js_or (customerId ord) (customerPhone ord), n_orderId = oid,
     isRead = False\<rparr>"

text \<open>
  The handler, for the path parameter \<open>oid\<close> and the body field \<open>req_driverId\<close>; \<open>now\<close>
  is the clock at the update and \<open>notif_ok\<close> whether creating the notification succeeds.
\<close>

definition assign_driver :: "store \<Rightarrow> string \<Rightarrow> jsstr \<Rightarrow> int \<Rightarrow> bool \<Rightarrow> store \<times> response" where
  "assign_driver s oid req_driverId now notif_ok =
    (case req_driverId of
       None \<Rightarrow> (s, Error 400 DriverIdRequired)
     | Some did \<Rightarrow>
         if \<not> truthy (Some did) then (s, Error 400 DriverIdRequired)
         else
           (case getOrder s oid of
              None \<Rightarrow> (s, Error 404 OrderNotFound)
            | Some ord \<Rightarrow>
                if truthy (driverId ord) then (s, Error 400 AlreadyAssignedToAnotherDriver)
                else
                  (case getDriver s did of
                     None \<Rightarrow> (s, Error 404 DriverNotFound)
                   | Some d \<Rightarrow>
                       (case updateOrder s oid
                               (no_fields\<lparr>f_driverId := Some did, f_status := Some ''preparing''\<rparr>) now of
                          (s1, None) \<Rightarrow> (s1, Error 404 OrderUpdateFailed)
                        | (s1, Some updatedOrder) \<Rightarrow>
                            (let s2 = updateDriver s1 did False;
                                 s3 = try_notify s2 notif_ok (assigned_notification ord d oid)
                             in (s3, OkAssigned updatedOrder))))))"

section \<open>Order creation (POST /)\<close>

text \<open>What the handler reads from its environment: \<open>Date.now()\<close>,
  \<open>Math.floor(Math.random() * 1000)\<close>, the two \<open>new Date()\<close> of the row, the
  identifier the store gives the new row, and whether creating the notification succeeds.\<close>

record create_env =
  env_now :: nat
  env_random :: nat
  env_created :: int
  env_updated :: int
  env_new_id :: string
  env_notif_ok :: bool

text \<open>\<^verbatim>\<open>`ORD${Date.now()}${Math.floor(Math.random() * 1000)}`\<close>\<close>

definition order_number :: "nat \<Rightarrow> nat \<Rightarrow> string" where
  "order_number now rnd = ''ORD'' @ show_nat now @ show_nat rnd"

text \<open>
  Modelled from the spec: \<open>insertOrderSchema\<close> of \<open>@shared/schema\<close> is not among the
  sources. \<open>parse\<close> validates: it returns the data it accepts and throws (\<open>None\<close>) on the
  data it rejects. Which data the schema accepts is the parameter \<open>accepts\<close>.
\<close>

definition insertOrderSchema_parse :: "(order_fields \<Rightarrow> bool) \<Rightarrow> order_fields \<Rightarrow> order_fields option" where
  "insertOrderSchema_parse accepts d = (if accepts d then Some d else None)"

definition new_order_notification :: "order_fields \<Rightarrow> string \<Rightarrow> order \<Rightarrow> notification" where
  "new_order_notification orderData num newOrder =
    \<lparr>n_type = ''new_order'', n_title = NewOrderTitle,
     n_message = NewOrderFrom (f_customerName orderData) num, recipientType = ''admin'',
     recipientId = None, n_orderId = order_id newOrder, isRead = False\<rparr>"

definition create_order :: "(order_fields \<Rightarrow> bool) \<Rightarrow> store \<Rightarrow> order_fields \<Rightarrow> create_env \<Rightarrow> store \<times> response" where
  "create_order accepts s orderData env =
    (if \<not> truthy (f_customerName orderData) \<or> \<not> truthy (f_customerPhone orderData)
        \<or> \<not> truthy (f_deliveryAddress orderData)
     then (s, Error 400 RequiredDataMissing)
     else
       (let num = order_number (env_now env) (env_random env);
            newOrderData = orderData\<lparr>f_orderNumber := Some num, f_status := Some ''pending''\<rparr>
        in case insertOrderSchema_parse accepts newOrderData of
             None \<Rightarrow> (s, Error 500 CreateOrderFailed)
           | Some validatedData \<Rightarrow>
               (case createOrder s (env_new_id env) validatedData (env_created env) (env_updated env) of
                  (s1, newOrder) \<Rightarrow>
                    (let s2 = try_notify s1 (env_notif_ok env)
                                (new_order_notification orderData num newOrder)
                     in (s2, Created newOrder
                               (js_or (orderNumber newOrder) (Some (order_id newOrder))))))))"

section \<open>Order update (PUT /:id)\<close>

text \<open>
  \<open>statusMessages\<close> is an object literal with seven own properties. Reading
  \<open>statusMessages[key]\<close> follows the prototype chain, so that a key naming a property of
  \<open>Object.prototype\<close> yields that built-in value (a function or, for \<open>__proto__\<close>, the
  prototype object; all of them truthy), and any other key \<open>undefined\<close>.
\<close>

definition statusMessages :: "(string \<times> status_message) list" where
  "statusMessages =
    [(''confirmed'', YourOrderConfirmed),
     (''preparing'', YourOrderBeingPrepared),
     (''ready'', YourOrderReady),
     (''picked_up'', YourOrderPickedUp),
     (''on_way'', YourOrderOnTheWay),
     (''delivered'', YourOrderDelivered),
     (''cancelled'', YourOrderCancelled)]"

definition object_prototype_properties :: "string list" where
  "object_prototype_properties =
    [''constructor'', ''__defineGetter__'', ''__defineSetter__'', ''hasOwnProperty'',
     ''__lookupGetter__'', ''__lookupSetter__'', ''isPrototypeOf'', ''propertyIsEnumerable'',
     ''toString'', ''valueOf'', ''__proto__'', ''toLocaleString'']"

datatype 'a js_property = Own 'a | Inherited string

definition js_get :: "(string \<times> 'a) list \<Rightarrow> string \<Rightarrow> 'a js_property option" where
  "js_get obj key =
    (case map_of obj key of
       Some v \<Rightarrow> Some (Own v)
     | None \<Rightarrow> if key \<in> set object_prototype_properties then Some (Inherited key) else None)"

text \<open>A property key made of such a value: an absent one reads as \<open>undefined\<close>.\<close>

definition js_key :: "jsstr \<Rightarrow> string" where
  "js_key v = (case v of None \<Rightarrow> ''undefined'' | Some k \<Rightarrow> k)"

text \<open>\<^verbatim>\<open>statusMessages[updateData.status] || <fallback text>\<close>\<close>

definition status_update_message :: "jsstr \<Rightarrow> notif_message" where
  "status_update_message st =
    (case js_get statusMessages (js_key st) of
       Some (Own m) \<Rightarrow> StatusText m
     | Some (Inherited k) \<Rightarrow> InheritedProperty k
     | None \<Rightarrow> StatusUpdatedFallback)"

definition update_notification :: "order_fields \<Rightarrow> order \<Rightarrow> string \<Rightarrow> notification" where
  "update_notification updateData updatedOrder oid =
    \<lparr>n_type = ''order_update'', n_title = OrderUpdateTitle,
     n_message = status_update_message (f_status updateData), recipientType = ''customer'',
     recipientId = js_or (customerId updatedOrder) (customerPhone updatedOrder),
     n_orderId = oid, isRead = False\<rparr>"

definition update_order :: "store \<Rightarrow> string \<Rightarrow> order_fields \<Rightarrow> int \<Rightarrow> bool \<Rightarrow> store \<times> response" where
  "update_order s oid updateData now notif_ok =
    (case updateOrder s oid updateData now of
       (s1, None) \<Rightarrow> (s1, Error 404 OrderNotFound)
     | (s1, Some updatedOrder) \<Rightarrow>
         (let s2 = (if truthy (f_status updateData)
                    then try_notify s1 notif_ok (update_notification updateData updatedOrder oid)
                    else s1)
          in (s2, OkOrder updatedOrder)))"

section \<open>Order listing (GET /)\<close>

record order_query =
  q_status :: jsstr
  q_driverId :: jsstr
  q_restaurantId :: jsstr
  q_customerId :: jsstr

text \<open>\<open>Array.prototype.sort\<close> with a comparison function: a stable sort, here by
  insertion. \<open>cmp a b \<le> 0\<close> keeps \<open>a\<close> before \<open>b\<close>.\<close>

fun insert_cmp :: "('a \<Rightarrow> 'a \<Rightarrow> int) \<Rightarrow> 'a \<Rightarrow> 'a list \<Rightarrow> 'a list" where
  "insert_cmp cmp x [] = [x]"
| "insert_cmp cmp x (y # ys) = (if cmp x y \<le> 0 then x # y # ys else y # insert_cmp cmp x ys)"

definition js_sort :: "('a \<Rightarrow> 'a \<Rightarrow> int) \<Rightarrow> 'a list \<Rightarrow> 'a list" where
  "js_sort cmp xs = foldr (insert_cmp cmp) xs []"

definition list_orders :: "store \<Rightarrow> order_query \<Rightarrow> response" where
  "list_orders s q =
    (let orders0 = getOrders s;
         orders1 = (if truthy (q_status q) \<and> q_status q \<noteq> Some ''all''
                    then filter (\<lambda>ord. status ord = q_status q) orders0 else orders0);
         orders2 = (if truthy (q_driverId q)
                    then filter (\<lambda>ord. driverId ord = q_driverId q) orders1 else orders1);
         orders3 = (if truthy (q_restaurantId q)
                    then filter (\<lambda>ord. restaurantId ord = q_restaurantId q) orders2 else orders2);
         orders4 = (if truthy (q_customerId q)
                    then filter (\<lambda>ord. customerId ord = q_customerId q) orders3 else orders3)
     in OkOrders (js_sort (\<lambda>a b. createdAt b - createdAt a) orders4))"

section \<open>The filters of the order list, as the spec words them\<close>

text \<open>
  An order matches a query when it satisfies every filter in effect. The handler treats an
  absent or empty value as no filter, and the status value \<open>all\<close> as no status filter.
\<close>

definition order_matches :: "order_query \<Rightarrow> order \<Rightarrow> bool" where
  "order_matches q ord =
    ((truthy (q_status q) \<and> q_status q \<noteq> Some ''all'' \<longrightarrow> status ord = q_status q)
     \<and> (truthy (q_driverId q) \<longrightarrow> driverId ord = q_driverId q)
     \<and> (truthy (q_restaurantId q) \<longrightarrow> restaurantId ord = q_restaurantId q)
     \<and> (truthy (q_customerId q) \<longrightarrow> customerId ord = q_customerId q))"

section \<open>Driver assignment, one storage call at a time\<close>

text \<open>
  The handler is an \<open>async\<close> function: it runs to its next \<open>await\<close>, and between
  two of its storage calls the server may run the steps of other requests. A request in
  flight is the storage call it is about to make, together with the local variables it
  holds by then (\<open>id\<close>, \<open>driverId\<close>, \<open>order\<close>, \<open>driver\<close>, \<open>updatedOrder\<close>), or the
  response it has sent.
\<close>

datatype assign_task =
    CallGetOrder string string
  | CallGetDriver string string order
  | CallUpdateOrder string string order driver
  | CallUpdateDriver string string order driver order
  | CallCreateNotification string string order driver order
  | Responded response

text \<open>The part before the first storage call: the check of the body's driver id.\<close>

definition assign_start :: "string \<Rightarrow> jsstr \<Rightarrow> assign_task" where
  "assign_start oid req_driverId =
    (case req_driverId of
       None \<Rightarrow> Responded (Error 400 DriverIdRequired)
     | Some did \<Rightarrow>
         if \<not> truthy (Some did) then Responded (Error 400 DriverIdRequired)
         else CallGetOrder oid did)"

text \<open>One storage call and the handler's code up to its next one.\<close>

fun assign_step :: "store \<Rightarrow> int \<Rightarrow> bool \<Rightarrow> assign_task \<Rightarrow> store \<times> assign_task" where
  "assign_step s now notif_ok (CallGetOrder oid did) =
    (case getOrder s oid of
       None \<Rightarrow> (s, Responded (Error 404 OrderNotFound))
     | Some ord \<Rightarrow>
         if truthy (driverId ord) then (s, Responded (Error 400 AlreadyAssignedToAnotherDriver))
         else (s, CallGetDriver oid did ord))"
| "assign_step s now notif_ok (CallGetDriver oid did ord) =
    (case getDriver s did of
       None \<Rightarrow> (s, Responded (Error 404 DriverNotFound))
     | Some d \<Rightarrow> (s, CallUpdateOrder oid did ord d))"
| "assign_step s now notif_ok (CallUpdateOrder oid did ord d) =
    (case updateOrder s oid (no_fields\<lparr>f_driverId := Some did, f_status := Some ''preparing''\<rparr>) now of
       (s1, None) \<Rightarrow> (s1, Responded (Error 404 OrderUpdateFailed))
     | (s1, Some updatedOrder) \<Rightarrow> (s1, CallUpdateDriver oid did ord d updatedOrder))"
| "assign_step s now notif_ok (CallUpdateDriver oid did ord d updatedOrder) =
    (updateDriver s did False, CallCreateNotification oid did ord d updatedOrder)"
| "assign_step s now notif_ok (CallCreateNotification oid did ord d updatedOrder) =
    (try_notify s notif_ok (assigned_notification ord d oid), Responded (OkAssigned updatedOrder))"
| "assign_step s now notif_ok (Responded r) = (s, Responded r)"

text \<open>A request running alone for \<open>n\<close> steps.\<close>

fun assign_steps :: "nat \<Rightarrow> store \<Rightarrow> int \<Rightarrow> bool \<Rightarrow> assign_task \<Rightarrow> store \<times> assign_task" where
  "assign_steps 0 s now notif_ok t = (s, t)"
| "assign_steps (Suc n) s now notif_ok t =
    (case assign_step s now notif_ok t of (s', t') \<Rightarrow> assign_steps n s' now notif_ok t')"

text \<open>Two requests in flight over one store. A schedule says, step by step, which of
  the two moves and what the clock shows then.\<close>

datatype which_request = First | Second

fun run_schedule ::
  "bool \<Rightarrow> (which_request \<times> int) list \<Rightarrow> store \<times> assign_task \<times> assign_task
    \<Rightarrow> store \<times> assign_task \<times> assign_task" where
  "run_schedule notif_ok [] c = c"
| "run_schedule notif_ok ((First, now) # sch) (s, a, b) =
    (case assign_step s now notif_ok a of (s', a') \<Rightarrow> run_schedule notif_ok sch (s', a', b))"
| "run_schedule notif_ok ((Second, now) # sch) (s, a, b) =
    (case assign_step s now notif_ok b of (s', b') \<Rightarrow> run_schedule notif_ok sch (s', a, b'))"

text \<open>Both requests read the order, then both read their driver, then each writes.\<close>

definition racing_schedule :: "(which_request \<times> int) list" where
  "racing_schedule =
    [(First, 1700000060000), (Second, 1700000060001), (First, 1700000060002),
     (Second, 1700000060003), (First, 1700000060004), (First, 1700000060005),
     (First, 1700000060006), (Second, 1700000060007), (Second, 1700000060008),
     (Second, 1700000060009)]"

text \<open>The first request runs to its response before the second starts.\<close>

definition serial_schedule :: "(which_request \<times> int) list" where
  "serial_schedule =
    [(First, 1700000060000), (First, 1700000060001), (First, 1700000060002),
     (First, 1700000060003), (First, 1700000060004), (Second, 1700000060005),
     (Second, 1700000060006), (Second, 1700000060007), (Second, 1700000060008),
     (Second, 1700000060009)]"

section \<open>Example data\<close>

definition demo_order :: order where
  "demo_order =
    \<lparr>order_id = ''o1'', orderNumber = Some ''ORD17000000000007'', customerName = Some ''Sam'',
     customerPhone = Some ''773123456'', customerId = None,
     deliveryAddress = Some ''Hadda street 12'', items = Some ''[]'', subtotal = Some ''50'',
     deliveryFee = Some ''5'', total = Some ''55'', totalAmount = Some ''55'',
     status = Some ''confirmed'', driverId = None, restaurantId = Some ''r1'',
     createdAt = 1700000000000, updatedAt = 1700000000000\<rparr>"

definition demo_driver1 :: driver where
  "demo_driver1 =
    \<lparr>driver_id = ''d1'', driver_name = Some ''Ali'', driver_phone = Some ''771111111'',
     isAvailable = True, currentLocation = None\<rparr>"

definition demo_driver2 :: driver where
  "demo_driver2 =
    \<lparr>driver_id = ''d2'', driver_name = Some ''Omar'', driver_phone = Some ''772222222'',
     isAvailable = True, currentLocation = None\<rparr>"

definition demo_store :: store where
  "demo_store = \<lparr>orders = [demo_order], drivers = [demo_driver1, demo_driver2], notifications = []\<rparr>"

definition empty_store :: store where
  "empty_store = \<lparr>orders = [], drivers = [], notifications = []\<rparr>"

definition demo_order2 :: order where
  "demo_order2 = demo_order\<lparr>order_id := ''o2'', status := Some ''pending'', createdAt := 1700000100000\<rparr>"

definition demo_order3 :: order where
  "demo_order3 = demo_order\<lparr>order_id := ''o3'', driverId := Some ''d1'', createdAt := 1700000200000\<rparr>"

definition demo_store3 :: store where
  "demo_store3 =
    \<lparr>orders = [demo_order, demo_order2, demo_order3], drivers = [demo_driver1, demo_driver2],
     notifications = []\<rparr>"

definition no_query :: order_query where
  "no_query = \<lparr>q_status = None, q_driverId = None, q_restaurantId = None, q_customerId = None\<rparr>"

definition demo_body :: order_fields where
  "demo_body =
    no_fields\<lparr>f_customerName := Some ''Sam'', f_customerPhone := Some ''773123456'',
      f_deliveryAddress := Some ''Hadda street 12'', f_items := Some ''[]'',
      f_subtotal := Some ''50'', f_deliveryFee := Some ''5'', f_total := Some ''55'',
      f_totalAmount := Some ''55'', f_status := Some ''delivered'',
      f_orderNumber := Some ''ORD1''\<rparr>"

definition demo_env :: create_env where
  "demo_env =
    \<lparr>env_now = 1700000000000, env_random = 7, env_created = 1700000000001,
     env_updated = 1700000000001, env_new_id = ''o2'', env_notif_ok = True\<rparr>"

section \<open>Facts about the store\<close>

lemma find_map_upd:
  "find (\<lambda>r. key r = k) xs = Some x \<Longrightarrow> (\<And>r. key (f r) = key r) \<Longrightarrow>
   find (\<lambda>r. key r = k) (map (\<lambda>r. if key r = k then f r else r) xs) = Some (f x)"
  by (induction xs) (auto split: if_splits)

lemma order_id_apply_fields [simp]: "order_id (apply_fields p u r) = order_id r"
  by (simp add: apply_fields_def)

lemma updateOrder_existing:
  assumes "getOrder s oid = Some ord" and "updateOrder s oid p u = (s', r)"
  shows "r = Some (apply_fields p u ord) \<and> getOrder s' oid = Some (apply_fields p u ord)
     \<and> drivers s' = drivers s \<and> notifications s' = notifications s"
  using assms
    find_map_upd [where key = order_id and f = "apply_fields p u" and k = oid
      and xs = "orders s" and x = ord]
  by (auto simp: updateOrder_def getOrder_def)

lemma getDriver_updateDriver:
  "getDriver s did = Some d \<Longrightarrow>
     getDriver (updateDriver s did b) did = Some (d\<lparr>isAvailable := b\<rparr>)"
  using find_map_upd [where key = driver_id and f = "\<lambda>d. d\<lparr>isAvailable := b\<rparr>" and k = did
      and xs = "drivers s" and x = d]
  by (auto simp: updateDriver_def getDriver_def)

lemma try_notify_keeps [simp]:
  "orders (try_notify s ok n) = orders s" "drivers (try_notify s ok n) = drivers s"
  by (auto simp: try_notify_def createNotification_def)

lemma updateDriver_orders [simp]: "orders (updateDriver s did b) = orders s"
  by (simp add: updateDriver_def)

lemma getOrder_cong: "orders s = orders s' \<Longrightarrow> getOrder s oid = getOrder s' oid"
  by (simp add: getOrder_def)

lemma getDriver_cong: "drivers s = drivers s' \<Longrightarrow> getDriver s did = getDriver s' did"
  by (simp add: getDriver_def)

section \<open>Driver assignment\<close>

lemma assign_driver_effect:
  assumes "getOrder s oid = Some ord" and "\<not> truthy (driverId ord)"
    and "did \<noteq> []" and "getDriver s did = Some d"
  shows "\<exists>s' ord'. assign_driver s oid (Some did) now notif_ok = (s', OkAssigned ord')
     \<and> getOrder s' oid = Some ord' \<and> driverId ord' = Some did \<and> status ord' = Some ''preparing''
     \<and> getDriver s' did = Some (d\<lparr>isAvailable := False\<rparr>)"
proof -
  let ?p = "no_fields\<lparr>f_driverId := Some did, f_status := Some ''preparing''\<rparr>"
  obtain s1 r where u: "updateOrder s oid ?p now = (s1, r)"
    by (cases "updateOrder s oid ?p now")
  let ?o = "apply_fields ?p now ord"
  from updateOrder_existing [OF assms(1) u]
  have r: "r = Some ?o" and g: "getOrder s1 oid = Some ?o" and dr: "drivers s1 = drivers s"
    by auto
  let ?s2 = "updateDriver s1 did False"
  let ?s3 = "try_notify ?s2 notif_ok (assigned_notification ord d oid)"
  have res: "assign_driver s oid (Some did) now notif_ok = (?s3, OkAssigned ?o)"
    using assms u r by (simp add: assign_driver_def Let_def)
  have g3: "getOrder ?s3 oid = Some ?o"
    using g getOrder_cong [of ?s3 s1 oid] by simp
  have "getDriver s1 did = Some d"
    using assms(4) getDriver_cong [OF dr] by simp
  then have "getDriver ?s2 did = Some (d\<lparr>isAvailable := False\<rparr>)"
    by (rule getDriver_updateDriver)
  then have d3: "getDriver ?s3 did = Some (d\<lparr>isAvailable := False\<rparr>)"
    using getDriver_cong [of ?s3 ?s2 did] by simp
  have f: "driverId ?o = Some did" "status ?o = Some ''preparing''"
    by (simp_all add: apply_fields_def set_field_def no_fields_def)
  show ?thesis using res g3 d3 f by simp
qed

text \<open>
  C1. An assign-driver request that names a driver (the handler answers 400 to an absent
  or empty driver id before it looks anything up), for an order that exists and has no
  assigned driver and a driver that exists, succeeds with 200; afterwards the stored order
  has the requested driver id and the status \<open>preparing\<close>, whatever its status was, and
  the stored driver is not available.
\<close>

theorem assign_driver_success:
  assumes "getOrder s oid = Some ord" and "\<not> truthy (driverId ord)"
    and "did \<noteq> []" and "getDriver s did = Some d"
  shows "\<exists>s' ord' d'. assign_driver s oid (Some did) now notif_ok = (s', OkAssigned ord')
     \<and> http_status (OkAssigned ord') = 200
     \<and> getOrder s' oid = Some ord' \<and> driverId ord' = Some did \<and> status ord' = Some ''preparing''
     \<and> getDriver s' did = Some d' \<and> isAvailable d' = False"
proof -
  from assign_driver_effect [OF assms, of now notif_ok]
  obtain s' ord' where
    "assign_driver s oid (Some did) now notif_ok = (s', OkAssigned ord')"
    "getOrder s' oid = Some ord'" "driverId ord' = Some did" "status ord' = Some ''preparing''"
    "getDriver s' did = Some (d\<lparr>isAvailable := False\<rparr>)"
    by blast
  then show ?thesis by simp
qed

theorem assign_driver_success_witness:
  "getOrder demo_store ''o1'' = Some demo_order \<and> \<not> truthy (driverId demo_order)
   \<and> status demo_order = Some ''confirmed''
   \<and> ''d1'' \<noteq> [] \<and> getDriver demo_store ''d1'' = Some demo_driver1
   \<and> (\<exists>s' ord' d'. assign_driver demo_store ''o1'' (Some ''d1'') 1700000060000 True = (s', OkAssigned ord')
        \<and> http_status (OkAssigned ord') = 200
        \<and> getOrder s' ''o1'' = Some ord' \<and> driverId ord' = Some ''d1''
        \<and> status ord' = Some ''preparing''
        \<and> getDriver s' ''d1'' = Some d' \<and> isAvailable d' = False)"
proof -
  have h1: "getOrder demo_store ''o1'' = Some demo_order"
    by (simp add: getOrder_def demo_store_def demo_order_def)
  have h2: "\<not> truthy (driverId demo_order)"
    by (simp add: demo_order_def)
  have h3: "''d1'' \<noteq> []"
    by simp
  have h4: "getDriver demo_store ''d1'' = Some demo_driver1"
    by (simp add: getDriver_def demo_store_def demo_driver1_def)
  have h5: "status demo_order = Some ''confirmed''"
    by (simp add: demo_order_def)
  from assign_driver_success [OF h1 h2 h3 h4, of 1700000060000 True] h1 h2 h3 h4 h5
  show ?thesis by blast
qed

text \<open>
  C2 (as amended). The handler first answers 400 (driver id required) to a request whose
  driver id is absent or empty. For a request that names a driver, the remaining checks
  come in this order: an unknown order gives 404 (order not found); otherwise an order
  that has an assigned driver gives 400 (already assigned to another driver, the
  conflict); otherwise an unknown driver gives 404 (driver not found). The three answers
  differ from each other, and in each of the four cases the store is returned unchanged.
\<close>

theorem assign_driver_failures:
  "assign_driver s oid None now ok = (s, Error 400 DriverIdRequired)
   \<and> assign_driver s oid (Some []) now ok = (s, Error 400 DriverIdRequired)
   \<and> (did \<noteq> [] \<longrightarrow>
        (getOrder s oid = None \<longrightarrow>
           assign_driver s oid (Some did) now ok = (s, Error 404 OrderNotFound))
        \<and> (\<forall>ord. getOrder s oid = Some ord \<longrightarrow>
              (truthy (driverId ord) \<longrightarrow>
                 assign_driver s oid (Some did) now ok
                   = (s, Error 400 AlreadyAssignedToAnotherDriver))
              \<and> (\<not> truthy (driverId ord) \<and> getDriver s did = None \<longrightarrow>
                 assign_driver s oid (Some did) now ok = (s, Error 404 DriverNotFound))))
   \<and> distinct [Error 404 OrderNotFound, Error 400 AlreadyAssignedToAnotherDriver,
        Error 404 DriverNotFound]"
  by (auto simp: assign_driver_def)

theorem assign_driver_failures_witness:
  "assign_driver demo_store ''o1'' None 7 True = (demo_store, Error 400 DriverIdRequired)
   \<and> getOrder demo_store ''o9'' = None
   \<and> assign_driver demo_store ''o9'' (Some ''d1'') 7 True = (demo_store, Error 404 OrderNotFound)
   \<and> getOrder (demo_store\<lparr>orders := [demo_order3]\<rparr>) ''o3'' = Some demo_order3
   \<and> truthy (driverId demo_order3)
   \<and> assign_driver (demo_store\<lparr>orders := [demo_order3]\<rparr>) ''o3'' (Some ''d2'') 7 True
       = (demo_store\<lparr>orders := [demo_order3]\<rparr>, Error 400 AlreadyAssignedToAnotherDriver)
   \<and> getOrder demo_store ''o1'' = Some demo_order \<and> \<not> truthy (driverId demo_order)
   \<and> getDriver demo_store ''d9'' = None
   \<and> assign_driver demo_store ''o1'' (Some ''d9'') 7 True = (demo_store, Error 404 DriverNotFound)"
proof -
  let ?s = "demo_store\<lparr>orders := [demo_order3]\<rparr>"
  have a: "assign_driver demo_store ''o1'' None 7 True = (demo_store, Error 400 DriverIdRequired)"
    using assign_driver_failures [of demo_store "''o1''" 7 True] by simp
  have h1: "getOrder demo_store ''o9'' = None"
    by (simp add: getOrder_def demo_store_def demo_order_def)
  then have b: "assign_driver demo_store ''o9'' (Some ''d1'') 7 True = (demo_store, Error 404 OrderNotFound)"
    using assign_driver_failures [of demo_store "''o9''" 7 True "''d1''"] by simp
  have h2: "getOrder ?s ''o3'' = Some demo_order3" "truthy (driverId demo_order3)"
    by (simp_all add: getOrder_def demo_order3_def demo_order_def)
  then have c: "assign_driver ?s ''o3'' (Some ''d2'') 7 True = (?s, Error 400 AlreadyAssignedToAnotherDriver)"
    using assign_driver_failures [of ?s "''o3''" 7 True "''d2''"] by simp
  have h3: "getOrder demo_store ''o1'' = Some demo_order" "\<not> truthy (driverId demo_order)"
      "getDriver demo_store ''d9'' = None"
    by (simp_all add: getOrder_def getDriver_def demo_store_def demo_order_def
        demo_driver1_def demo_driver2_def)
  then have d: "assign_driver demo_store ''o1'' (Some ''d9'') 7 True = (demo_store, Error 404 DriverNotFound)"
    using assign_driver_failures [of demo_store "''o1''" 7 True "''d9''"] by simp
  show ?thesis using a b c d h1 h2 h3 by simp
qed

text \<open>C2 as stated fails: a request without a driver id for an order that does not exist is
  answered 400 (driver id required), not 404.\<close>

theorem assign_driver_order_check_first_counterexample:
  "\<not> (\<forall>s oid req now ok. getOrder s oid = None \<longrightarrow>
        snd (assign_driver s oid req now ok) = Error 404 OrderNotFound)"
proof
  assume "\<forall>s oid req now ok. getOrder s oid = None \<longrightarrow>
        snd (assign_driver s oid req now ok) = Error 404 OrderNotFound"
  then have "getOrder empty_store ''o1'' = None \<longrightarrow>
        snd (assign_driver empty_store ''o1'' None 0 True) = Error 404 OrderNotFound"
    by blast
  then show False
    by (simp add: getOrder_def empty_store_def assign_driver_def)
qed

section \<open>Tracking synthesis\<close>

lemma findIndex_from_none:
  "\<forall>x\<in>set xs. \<not> p x \<Longrightarrow> findIndex_from p xs i = - 1"
  by (induction xs arbitrary: i) auto

lemma findIndex_from_first:
  "k < length xs \<Longrightarrow> p (xs ! k) \<Longrightarrow> \<forall>j<k. \<not> p (xs ! j) \<Longrightarrow>
   findIndex_from p xs i = i + int k"
proof (induction xs arbitrary: i k)
  case Nil
  then show ?case by simp
next
  case (Cons x xs)
  show ?case
  proof (cases k)
    case 0
    with Cons.prems show ?thesis by simp
  next
    case (Suc k')
    from Cons.prems Suc have nx: "\<not> p x" by auto
    from Cons.prems Suc have "k' < length xs" "p (xs ! k')" "\<forall>j<k'. \<not> p (xs ! j)"
      by auto
    from Cons.IH [OF this] nx Suc show ?thesis by simp
  qed
qed

lemma track_loop_closed:
  "0 \<le> i \<Longrightarrow> cur < int (length statusSteps) \<Longrightarrow>
   track_loop b cur i acc =
     Inr (acc @ map (\<lambda>j. tracking_entry_of b j (statusSteps ! nat j)) [i..cur])"
proof (induction b cur i acc rule: track_loop.induct)
  case (1 b cur i acc)
  show ?case
  proof (cases "i \<le> cur")
    case False
    then show ?thesis by (simp add: track_loop.simps [of b cur i acc])
  next
    case True
    with "1.prems" have idx: "js_index statusSteps i = Some (statusSteps ! nat i)"
      by (simp add: js_index_def)
    have up: "[i..cur] = i # [i + 1..cur]"
      using True by (simp add: upto_rec1)
    from "1.IH" [OF True idx] "1.prems"
    have "track_loop b cur (i + 1) (acc @ [tracking_entry_of b i (statusSteps ! nat i)]) =
      Inr ((acc @ [tracking_entry_of b i (statusSteps ! nat i)]) @
        map (\<lambda>j. tracking_entry_of b j (statusSteps ! nat j)) [i + 1..cur])"
      by simp
    then show ?thesis
      using True idx up by (simp add: track_loop.simps [of b cur i acc])
  qed
qed

lemma map_upto_take:
  "k < length xs \<Longrightarrow> map (\<lambda>j. f (xs ! nat j)) [0..int k] = map f (take (Suc k) xs)"
proof (induction k)
  case 0
  then show ?case by (cases xs) (simp_all add: upto_rec1)
next
  case (Suc k)
  then have "[0..int (Suc k)] = [0..int k] @ [int (Suc k)]"
    by (simp add: upto_rec2)
  with Suc show ?case
    by (simp add: take_Suc_conv_app_nth [of "Suc k"] nat_add_distrib)
qed

lemma distinct_statuses: "distinct (map step_status statusSteps)"
  by (simp add: statusSteps_def)

text \<open>
  C4. The status table is the fixed one; its statuses differ from each other. An order
  whose status is not in the table (\<open>cancelled\<close>, or none) has the empty timeline. An order
  whose status is the table's entry number \<open>k\<close> has one timeline entry for each of the
  table's entries \<open>0\<close> to \<open>k\<close>, in the table's order, and the timestamp of each is the
  order's creation time plus the entry's offset in minutes (60000 ms each).
\<close>

theorem tracking_timeline:
  "map (\<lambda>st. (step_status st, step_offset st)) statusSteps =
     [(''pending'', 0), (''confirmed'', 5), (''preparing'', 10), (''ready'', 20),
      (''picked_up'', 25), (''on_way'', 30), (''delivered'', 45)]
   \<and> distinct (map step_status statusSteps)
   \<and> (status ord \<notin> Some ` step_status ` set statusSteps \<longrightarrow> synthesize_tracking ord = Inr [])
   \<and> (\<forall>k<length statusSteps. status ord = Some (step_status (statusSteps ! k)) \<longrightarrow>
        (\<exists>tr. synthesize_tracking ord = Inr tr
           \<and> map (\<lambda>e. (te_status e, te_timestamp e)) tr =
               map (\<lambda>st. (step_status st, createdAt ord + step_offset st * 60000))
                 (take (Suc k) statusSteps)))"
proof (intro conjI allI impI)
  show "map (\<lambda>st. (step_status st, step_offset st)) statusSteps =
     [(''pending'', 0), (''confirmed'', 5), (''preparing'', 10), (''ready'', 20),
      (''picked_up'', 25), (''on_way'', 30), (''delivered'', 45)]"
    by (simp add: statusSteps_def)
  show "distinct (map step_status statusSteps)" by (rule distinct_statuses)
next
  assume "status ord \<notin> Some ` step_status ` set statusSteps"
  then have "\<forall>st\<in>set statusSteps. \<not> Some (step_status st) = status ord"
    by force
  then have "findIndex (\<lambda>step. Some (step_status step) = status ord) statusSteps = - 1"
    unfolding findIndex_def by (rule findIndex_from_none)
  then show "synthesize_tracking ord = Inr []"
    by (simp add: synthesize_tracking_def track_loop.simps [of _ "- 1" 0])
next
  fix k
  assume k: "k < length statusSteps" and st: "status ord = Some (step_status (statusSteps ! k))"
  have "\<forall>j<k. \<not> Some (step_status (statusSteps ! j)) = status ord"
  proof (intro allI impI)
    fix j assume "j < k"
    with k distinct_statuses
    have "map step_status statusSteps ! j \<noteq> map step_status statusSteps ! k"
      by (simp add: nth_eq_iff_index_eq del: nth_map)
    with k \<open>j < k\<close> st show "\<not> Some (step_status (statusSteps ! j)) = status ord"
      by simp
  qed
  with k st
  have fi: "findIndex (\<lambda>step. Some (step_status step) = status ord) statusSteps = int k"
    unfolding findIndex_def
    using findIndex_from_first [of k statusSteps "\<lambda>step. Some (step_status step) = status ord" 0]
    by simp
  let ?tr = "map (\<lambda>j. tracking_entry_of (createdAt ord) j (statusSteps ! nat j)) [0..int k]"
  have run: "synthesize_tracking ord = Inr ?tr"
    using k fi track_loop_closed [of 0 "int k" "createdAt ord" "[]"]
    by (simp add: synthesize_tracking_def)
  have "map (\<lambda>e. (te_status e, te_timestamp e)) ?tr =
      map (\<lambda>j. (\<lambda>st. (step_status st, createdAt ord + step_offset st * 60000)) (statusSteps ! nat j)) [0..int k]"
    by (simp add: tracking_entry_of_def)
  also have "\<dots> = map (\<lambda>st. (step_status st, createdAt ord + step_offset st * 60000))
                 (take (Suc k) statusSteps)"
    using k by (rule map_upto_take)
  finally show "\<exists>tr. synthesize_tracking ord = Inr tr
           \<and> map (\<lambda>e. (te_status e, te_timestamp e)) tr =
               map (\<lambda>st. (step_status st, createdAt ord + step_offset st * 60000))
                 (take (Suc k) statusSteps)"
    using run by blast
qed

theorem tracking_timeline_witness:
  "status (demo_order\<lparr>status := Some ''cancelled''\<rparr>) \<notin> Some ` step_status ` set statusSteps
   \<and> synthesize_tracking (demo_order\<lparr>status := Some ''cancelled''\<rparr>) = Inr []
   \<and> 1 < length statusSteps \<and> status demo_order = Some (step_status (statusSteps ! 1))
   \<and> (\<exists>tr. synthesize_tracking demo_order = Inr tr
         \<and> map (\<lambda>e. (te_status e, te_timestamp e)) tr =
             [(''pending'', 1700000000000), (''confirmed'', 1700000300000)])"
proof -
  let ?c = "demo_order\<lparr>status := Some ''cancelled''\<rparr>"
  have h1: "status ?c \<notin> Some ` step_status ` set statusSteps"
    by (simp add: statusSteps_def image_iff)
  have h2: "1 < length statusSteps" "status demo_order = Some (step_status (statusSteps ! 1))"
    by (simp_all add: statusSteps_def demo_order_def)
  have c: "synthesize_tracking ?c = Inr []"
    using tracking_timeline [of ?c] h1 by blast
  from tracking_timeline [of demo_order] h2
  obtain tr where tr: "synthesize_tracking demo_order = Inr tr"
    "map (\<lambda>e. (te_status e, te_timestamp e)) tr =
       map (\<lambda>st. (step_status st, createdAt demo_order + step_offset st * 60000))
         (take (Suc 1) statusSteps)"
    by blast
  have "map (\<lambda>st. (step_status st, createdAt demo_order + step_offset st * 60000))
         (take (Suc 1) statusSteps) = [(''pending'', 1700000000000), (''confirmed'', 1700000300000)]"
    by (simp add: statusSteps_def demo_order_def)
  with tr h1 h2 c show ?thesis by auto
qed

section \<open>Order listing\<close>

lemma mset_insert_cmp: "mset (insert_cmp cmp x xs) = add_mset x (mset xs)"
  by (induction xs) auto

lemma mset_js_sort: "mset (js_sort cmp xs) = mset xs"
  unfolding js_sort_def by (induction xs) (auto simp: mset_insert_cmp)

lemma set_insert_cmp: "set (insert_cmp cmp x xs) = insert x (set xs)"
  by (induction xs) auto

lemma sorted_insert_cmp:
  "sorted_wrt (\<lambda>a b. key b \<le> (key a :: int)) xs \<Longrightarrow>
   sorted_wrt (\<lambda>a b. key b \<le> key a) (insert_cmp (\<lambda>a b. key b - key a) x xs)"
  by (induction xs) (auto simp: set_insert_cmp)

lemma sorted_js_sort:
  "sorted_wrt (\<lambda>a b. key b \<le> (key a :: int)) (js_sort (\<lambda>a b. key b - key a) xs)"
  unfolding js_sort_def by (induction xs) (auto simp: sorted_insert_cmp)

lemma filter_if: "(if c then filter p xs else xs) = filter (\<lambda>x. c \<longrightarrow> p x) xs"
  by simp

text \<open>
  C7 (as amended). For every combination of the four optional filters, where an absent or
  empty value and the status value \<open>all\<close> stand for no filter, the handler answers with a
  list that holds exactly the stored orders matching all filters in effect, each as often
  as the store holds it, so that every returned order matches and no matching order is
  omitted; the list is ordered by creation time, newest first.
\<close>

theorem list_orders_filtered_sorted:
  "\<exists>res. list_orders s q = OkOrders res
     \<and> mset res = mset (filter (order_matches q) (getOrders s))
     \<and> (\<forall>ord\<in>set res. order_matches q ord)
     \<and> sorted_wrt (\<lambda>a b. createdAt b \<le> createdAt a) res"
proof -
  let ?sel = "filter (order_matches q) (getOrders s)"
  have "list_orders s q = OkOrders (js_sort (\<lambda>a b. createdAt b - createdAt a) ?sel)"
    unfolding list_orders_def Let_def filter_if filter_filter order_matches_def
    by (simp add: conj_commute conj_left_commute cong: filter_cong)
  moreover have "mset (js_sort (\<lambda>a b. createdAt b - createdAt a) ?sel) = mset ?sel"
    by (rule mset_js_sort)
  moreover from this have "set (js_sort (\<lambda>a b. createdAt b - createdAt a) ?sel) = set ?sel"
    by (rule mset_eq_setD)
  moreover have "sorted_wrt (\<lambda>a b. createdAt b \<le> createdAt a) (js_sort (\<lambda>a b. createdAt b - createdAt a) ?sel)"
    by (rule sorted_js_sort)
  ultimately show ?thesis by auto
qed

theorem list_orders_filtered_sorted_witness:
  "list_orders demo_store3 (no_query\<lparr>q_status := Some ''confirmed''\<rparr>)
      = OkOrders [demo_order3, demo_order]
   \<and> mset [demo_order3, demo_order] =
       mset (filter (order_matches (no_query\<lparr>q_status := Some ''confirmed''\<rparr>)) (getOrders demo_store3))
   \<and> order_matches (no_query\<lparr>q_status := Some ''confirmed''\<rparr>) demo_order3
   \<and> order_matches (no_query\<lparr>q_status := Some ''confirmed''\<rparr>) demo_order
   \<and> \<not> order_matches (no_query\<lparr>q_status := Some ''confirmed''\<rparr>) demo_order2
   \<and> sorted_wrt (\<lambda>a b. createdAt b \<le> createdAt a) [demo_order3, demo_order]"
proof -
  let ?q = "no_query\<lparr>q_status := Some ''confirmed''\<rparr>"
  have v: "list_orders demo_store3 ?q = OkOrders [demo_order3, demo_order]"
    by (simp add: list_orders_def getOrders_def demo_store3_def no_query_def js_sort_def
        demo_order_def demo_order2_def demo_order3_def)
  have n: "\<not> order_matches ?q demo_order2"
    by (simp add: order_matches_def no_query_def demo_order2_def demo_order_def)
  from list_orders_filtered_sorted [of demo_store3 ?q] v
  have "mset [demo_order3, demo_order] = mset (filter (order_matches ?q) (getOrders demo_store3))
     \<and> (\<forall>ord\<in>set [demo_order3, demo_order]. order_matches ?q ord)
     \<and> sorted_wrt (\<lambda>a b. createdAt b \<le> createdAt a) [demo_order3, demo_order]"
    by auto
  with v n show ?thesis by simp
qed

text \<open>C7 as stated fails: with the status filter \<open>all\<close> the handler returns orders whose
  status is not \<open>all\<close>.\<close>

theorem list_orders_status_all_counterexample:
  "\<not> (\<forall>s q res. list_orders s q = OkOrders res \<longrightarrow>
        (\<forall>ord\<in>set res. q_status q \<noteq> None \<longrightarrow> status ord = q_status q))"
proof
  assume a: "\<forall>s q res. list_orders s q = OkOrders res \<longrightarrow>
        (\<forall>ord\<in>set res. q_status q \<noteq> None \<longrightarrow> status ord = q_status q)"
  let ?q = "no_query\<lparr>q_status := Some ''all''\<rparr>"
  have "list_orders demo_store ?q = OkOrders [demo_order]"
    by (simp add: list_orders_def getOrders_def demo_store_def no_query_def js_sort_def)
  with a have "\<forall>ord\<in>set [demo_order]. q_status ?q \<noteq> None \<longrightarrow> status ord = q_status ?q"
    by blast
  then show False
    by (simp add: no_query_def demo_order_def)
qed

section \<open>Notifications are best effort\<close>

text \<open>
  C10. For order creation, order update and driver assignment alike, the response and the
  stored orders and drivers are the same whether creating the notification succeeds or
  throws.
\<close>

theorem notification_failure_changes_nothing:
  "snd (create_order acc s d (env\<lparr>env_notif_ok := False\<rparr>)) = snd (create_order acc s d (env\<lparr>env_notif_ok := True\<rparr>))
   \<and> orders (fst (create_order acc s d (env\<lparr>env_notif_ok := False\<rparr>))) = orders (fst (create_order acc s d (env\<lparr>env_notif_ok := True\<rparr>)))
   \<and> drivers (fst (create_order acc s d (env\<lparr>env_notif_ok := False\<rparr>))) = drivers (fst (create_order acc s d (env\<lparr>env_notif_ok := True\<rparr>)))
   \<and> snd (update_order s oid u now False) = snd (update_order s oid u now True)
   \<and> orders (fst (update_order s oid u now False)) = orders (fst (update_order s oid u now True))
   \<and> drivers (fst (update_order s oid u now False)) = drivers (fst (update_order s oid u now True))
   \<and> snd (assign_driver s oid req now False) = snd (assign_driver s oid req now True)
   \<and> orders (fst (assign_driver s oid req now False)) = orders (fst (assign_driver s oid req now True))
   \<and> drivers (fst (assign_driver s oid req now False)) = drivers (fst (assign_driver s oid req now True))"
proof -
  have c: "snd (create_order acc s d (env\<lparr>env_notif_ok := False\<rparr>)) = snd (create_order acc s d (env\<lparr>env_notif_ok := True\<rparr>))
   \<and> orders (fst (create_order acc s d (env\<lparr>env_notif_ok := False\<rparr>))) = orders (fst (create_order acc s d (env\<lparr>env_notif_ok := True\<rparr>)))
   \<and> drivers (fst (create_order acc s d (env\<lparr>env_notif_ok := False\<rparr>))) = drivers (fst (create_order acc s d (env\<lparr>env_notif_ok := True\<rparr>)))"
    by (simp add: create_order_def Let_def split: option.splits prod.splits)
  have u: "snd (update_order s oid u now False) = snd (update_order s oid u now True)
   \<and> orders (fst (update_order s oid u now False)) = orders (fst (update_order s oid u now True))
   \<and> drivers (fst (update_order s oid u now False)) = drivers (fst (update_order s oid u now True))"
    by (simp add: update_order_def Let_def split: option.splits prod.splits)
  have a: "snd (assign_driver s oid req now False) = snd (assign_driver s oid req now True)
   \<and> orders (fst (assign_driver s oid req now False)) = orders (fst (assign_driver s oid req now True))
   \<and> drivers (fst (assign_driver s oid req now False)) = drivers (fst (assign_driver s oid req now True))"
    by (simp add: assign_driver_def Let_def split: option.splits prod.splits)
  from c u a show ?thesis by blast
qed

theorem notification_failure_changes_nothing_witness:
  "snd (create_order (\<lambda>d. True) demo_store demo_body (demo_env\<lparr>env_notif_ok := False\<rparr>))
      = snd (create_order (\<lambda>d. True) demo_store demo_body (demo_env\<lparr>env_notif_ok := True\<rparr>))
   \<and> orders (fst (create_order (\<lambda>d. True) demo_store demo_body (demo_env\<lparr>env_notif_ok := False\<rparr>)))
      = orders (fst (create_order (\<lambda>d. True) demo_store demo_body (demo_env\<lparr>env_notif_ok := True\<rparr>)))
   \<and> snd (update_order demo_store ''o1'' (no_fields\<lparr>f_status := Some ''ready''\<rparr>) 1700000060000 False)
      = snd (update_order demo_store ''o1'' (no_fields\<lparr>f_status := Some ''ready''\<rparr>) 1700000060000 True)
   \<and> orders (fst (update_order demo_store ''o1'' (no_fields\<lparr>f_status := Some ''ready''\<rparr>) 1700000060000 False))
      = orders (fst (update_order demo_store ''o1'' (no_fields\<lparr>f_status := Some ''ready''\<rparr>) 1700000060000 True))
   \<and> snd (assign_driver demo_store ''o1'' (Some ''d1'') 1700000060000 False)
      = snd (assign_driver demo_store ''o1'' (Some ''d1'') 1700000060000 True)
   \<and> orders (fst (assign_driver demo_store ''o1'' (Some ''d1'') 1700000060000 False))
      = orders (fst (assign_driver demo_store ''o1'' (Some ''d1'') 1700000060000 True))
   \<and> drivers (fst (assign_driver demo_store ''o1'' (Some ''d1'') 1700000060000 False))
      = drivers (fst (assign_driver demo_store ''o1'' (Some ''d1'') 1700000060000 True))
   \<and> notifications (fst (assign_driver demo_store ''o1'' (Some ''d1'') 1700000060000 False)) = []
   \<and> length (notifications (fst (assign_driver demo_store ''o1'' (Some ''d1'') 1700000060000 True))) = 1
   \<and> http_status (snd (assign_driver demo_store ''o1'' (Some ''d1'') 1700000060000 False)) = 200"
proof -
  have n: "notifications (fst (assign_driver demo_store ''o1'' (Some ''d1'') 1700000060000 False)) = []"
      "length (notifications (fst (assign_driver demo_store ''o1'' (Some ''d1'') 1700000060000 True))) = 1"
      "http_status (snd (assign_driver demo_store ''o1'' (Some ''d1'') 1700000060000 False)) = 200"
    by (simp_all add: assign_driver_def getOrder_def getDriver_def updateOrder_def updateDriver_def
        try_notify_def createNotification_def demo_store_def demo_order_def demo_driver1_def
        demo_driver2_def)
  from notification_failure_changes_nothing [of "\<lambda>d. True" demo_store demo_body demo_env
      "''o1''" "no_fields\<lparr>f_status := Some ''ready''\<rparr>" 1700000060000 "Some ''d1''"]
  show ?thesis using n by simp
qed

section \<open>Order creation\<close>

lemma show_nat_nonempty: "show_nat n \<noteq> []"
  by (subst show_nat.simps) simp







section \<open>Order update\<close>

lemma update_order_unknown_status:
  assumes "getOrder s oid = Some ord" and "truthy (Some st)"
    and "st \<notin> fst ` set statusMessages" and "st \<notin> set object_prototype_properties"
  shows "\<exists>s' ord'. update_order s oid (u\<lparr>f_status := Some st\<rparr>) now True = (s', OkOrder ord')
     \<and> getOrder s' oid = Some ord' \<and> status ord' = Some st
     \<and> notifications s' = notifications s @ [update_notification (u\<lparr>f_status := Some st\<rparr>) ord' oid]
     \<and> n_message (update_notification (u\<lparr>f_status := Some st\<rparr>) ord' oid) = StatusUpdatedFallback"
proof -
  let ?u = "u\<lparr>f_status := Some st\<rparr>"
  obtain s1 r where up: "updateOrder s oid ?u now = (s1, r)"
    by (cases "updateOrder s oid ?u now")
  let ?o = "apply_fields ?u now ord"
  from updateOrder_existing [OF assms(1) up]
  have r: "r = Some ?o" and g: "getOrder s1 oid = Some ?o" and n: "notifications s1 = notifications s"
    by auto
  let ?s2 = "try_notify s1 True (update_notification ?u ?o oid)"
  have res: "update_order s oid ?u now True = (?s2, OkOrder ?o)"
    using assms(2) up r by (simp add: update_order_def)
  have g2: "getOrder ?s2 oid = Some ?o"
    using g getOrder_cong [of ?s2 s1 oid] by simp
  have "map_of statusMessages st = None"
    using assms(3) by (simp add: map_of_eq_None_iff)
  then have m: "n_message (update_notification ?u ?o oid) = StatusUpdatedFallback"
    using assms(4) by (simp add: update_notification_def status_update_message_def js_get_def js_key_def)
  have ns: "notifications ?s2 = notifications s @ [update_notification ?u ?o oid]"
    using n by (simp add: try_notify_def createNotification_def)
  have "status ?o = Some st" by (simp add: apply_fields_def set_field_def)
  with res g2 m ns show ?thesis by simp
qed

text \<open>
  C9, at the input where the handler departs from it: the status \<open>constructor\<close> is not a
  key of the status table, the order is stored with it, yet the message handed to the
  notification is the property \<open>constructor\<close> that the table object inherits from
  \<open>Object.prototype\<close>, not the fallback text.
\<close>

theorem update_order_inherited_key:
  "''constructor'' \<notin> fst ` set statusMessages
   \<and> (\<exists>s' ord' n.
         update_order demo_store ''o1'' (no_fields\<lparr>f_status := Some ''constructor''\<rparr>) 1700000000555 True
            = (s', OkOrder ord')
         \<and> getOrder s' ''o1'' = Some ord' \<and> status ord' = Some ''constructor''
         \<and> notifications s' = [n]
         \<and> n_message n = InheritedProperty ''constructor''
         \<and> n_message n \<noteq> StatusUpdatedFallback)"
  by (simp add: statusMessages_def update_order_def updateOrder_def getOrder_def demo_store_def
      demo_order_def apply_fields_def set_field_def no_fields_def try_notify_def
      createNotification_def update_notification_def status_update_message_def js_get_def
      js_key_def object_prototype_properties_def)

section \<open>Two assignment requests for one order\<close>

text \<open>Five steps of a request running alone are the handler.\<close>

lemma assign_steps_handler:
  "assign_steps 5 s now ok (assign_start oid req) =
     (fst (assign_driver s oid req now ok), Responded (snd (assign_driver s oid req now ok)))"
  by (simp add: eval_nat_numeral assign_start_def assign_driver_def Let_def
      split: option.splits prod.splits)

text \<open>Handled one after the other, the first of two requests for an unassigned order
  succeeds and the second is answered 400 (already assigned), whatever driver it names.\<close>

lemma assign_driver_already_assigned:
  "getOrder s oid = Some ord \<Longrightarrow> truthy (driverId ord) \<Longrightarrow> did \<noteq> [] \<Longrightarrow>
   assign_driver s oid (Some did) now ok = (s, Error 400 AlreadyAssignedToAnotherDriver)"
  by (simp add: assign_driver_def)

lemma sequential_assignments_exclusive:
  assumes "getOrder s oid = Some ord" and "\<not> truthy (driverId ord)"
    and "d1 \<noteq> []" and "d2 \<noteq> []" and "getDriver s d1 = Some dr1"
  shows "\<exists>s1 o1. assign_driver s oid (Some d1) t1 ok1 = (s1, OkAssigned o1)
     \<and> assign_driver s1 oid (Some d2) t2 ok2 = (s1, Error 400 AlreadyAssignedToAnotherDriver)
     \<and> getOrder s1 oid = Some o1 \<and> driverId o1 = Some d1
     \<and> getDriver s1 d1 = Some (dr1\<lparr>isAvailable := False\<rparr>)"
proof -
  from assign_driver_effect [OF assms(1,2,3,5), of t1 ok1]
  obtain s1 o1 where a: "assign_driver s oid (Some d1) t1 ok1 = (s1, OkAssigned o1)"
    "getOrder s1 oid = Some o1" "driverId o1 = Some d1"
    "getDriver s1 d1 = Some (dr1\<lparr>isAvailable := False\<rparr>)"
    by blast
  from a(3) assms(3) have "truthy (driverId o1)" by simp
  from assign_driver_already_assigned [OF a(2) this assms(4), of t2 ok2] a
  show ?thesis by simp
qed

lemma serial_assignments_one_succeeds:
  "\<exists>s' oa ord'.
     run_schedule True serial_schedule
        (demo_store, assign_start ''o1'' (Some ''d1''), assign_start ''o1'' (Some ''d2''))
       = (s', Responded (OkAssigned oa), Responded (Error 400 AlreadyAssignedToAnotherDriver))
     \<and> driverId oa = Some ''d1''
     \<and> getOrder s' ''o1'' = Some ord' \<and> driverId ord' = Some ''d1''
     \<and> map (\<lambda>d. (driver_id d, isAvailable d)) (drivers s') = [(''d1'', False), (''d2'', True)]"
  by (simp add: serial_schedule_def assign_start_def getOrder_def getDriver_def updateOrder_def
      updateDriver_def try_notify_def createNotification_def demo_store_def demo_order_def
      demo_driver1_def demo_driver2_def apply_fields_def set_field_def no_fields_def)

text \<open>
  C3, at the input where the handler departs from it: two requests for the unassigned
  order \<open>o1\<close>, one naming driver \<open>d1\<close> and one naming driver \<open>d2\<close>, whose storage calls
  interleave so that both read the order before either writes it. Both are answered 200;
  the order ends with the driver of the request that wrote last, and both drivers end
  unavailable.
\<close>

theorem concurrent_assignments_both_succeed:
  "\<exists>s' oa ob ord'.
     run_schedule True racing_schedule
        (demo_store, assign_start ''o1'' (Some ''d1''), assign_start ''o1'' (Some ''d2''))
       = (s', Responded (OkAssigned oa), Responded (OkAssigned ob))
     \<and> http_status (OkAssigned oa) = 200 \<and> http_status (OkAssigned ob) = 200
     \<and> driverId oa = Some ''d1'' \<and> driverId ob = Some ''d2''
     \<and> getOrder s' ''o1'' = Some ord' \<and> driverId ord' = Some ''d2''
     \<and> map (\<lambda>d. (driver_id d, isAvailable d)) (drivers s') = [(''d1'', False), (''d2'', False)]"
  by (simp add: racing_schedule_def assign_start_def getOrder_def getDriver_def updateOrder_def
      updateDriver_def try_notify_def createNotification_def demo_store_def demo_order_def
      demo_driver1_def demo_driver2_def apply_fields_def set_field_def no_fields_def)

end
